theory Spec2Isabelle
  imports Complex_Main
begin

section \<open>Tensors of the symbolic-tensor library\<close>

text \<open>
  The brick of \<^verbatim>\<open>dictlearn/stuff.py\<close> builds its result from operators of the tensor
  library (\<^verbatim>\<open>tensor.dot\<close>, the elementwise \<^verbatim>\<open>+\<close>, \<^verbatim>\<open>*\<close>, \<^verbatim>\<open>-\<close>, slicing, \<^verbatim>\<open>tensor.repeat\<close>).
  They are embedded here by the values they compute. Entries are real numbers: rounding,
  infinities and not-a-number values of the floating-point type are outside the model.

  A matrix carries its number of columns, so that an array with no row still has a width.
  A one-dimensional array is a list. Arrays of the source are rectangular; \<open>wf_matrix\<close>
  says so for the model.
\<close>

datatype error = ValueError | TypeError | AttributeError

type_synonym vec = "real list"

record matrix =
  ncols :: nat
  mrows :: "real list list"

definition nrows :: "matrix \<Rightarrow> nat" where
  "nrows m = length (mrows m)"

definition wf_matrix :: "matrix \<Rightarrow> bool" where
  "wf_matrix m = list_all (\<lambda>r. length r = ncols m) (mrows m)"

definition entry :: "matrix \<Rightarrow> nat \<Rightarrow> nat \<Rightarrow> real" where
  "entry m b j = mrows m ! b ! j"

text \<open>Sequencing of computations that may raise: the first error is the result.\<close>

fun bind :: "error + 'a \<Rightarrow> ('a \<Rightarrow> error + 'b) \<Rightarrow> error + 'b" where
  "bind (Inl e) f = Inl e"
| "bind (Inr x) f = f x"

text \<open>
  \<^verbatim>\<open>tensor.dot(a, b)\<close> on two matrices: the inner extents must agree, otherwise the
  library raises a shape-mismatch \<^verbatim>\<open>ValueError\<close> when the graph is run.
\<close>

definition dot :: "matrix \<Rightarrow> matrix \<Rightarrow> error + matrix" where
  "dot a b =
     (if ncols a = nrows b
      then Inr \<lparr>ncols = ncols b,
                mrows = map (\<lambda>r. map (\<lambda>j. sum_list (map (\<lambda>k. r ! k * entry b k j) [0..<ncols a]))
                                      [0..<ncols b])
                            (mrows a)\<rparr>
      else Inl ValueError)"

text \<open>
  An elementwise operator on two matrices. The library broadcasts only along axes that
  are broadcastable by type, and a matrix has none: extents that differ raise
  \<^verbatim>\<open>ValueError\<close> (input dimension mismatch).
\<close>

definition elemwise :: "(real \<Rightarrow> real \<Rightarrow> real) \<Rightarrow> matrix \<Rightarrow> matrix \<Rightarrow> error + matrix" where
  "elemwise f a b =
     (if nrows a = nrows b \<and> ncols a = ncols b
      then Inr \<lparr>ncols = ncols a, mrows = map2 (map2 f) (mrows a) (mrows b)\<rparr>
      else Inl ValueError)"

text \<open>
  A matrix with a one-dimensional array on the right: the array is taken as one row,
  broadcast over the rows of the matrix; its length must be the matrix's width.
\<close>

definition elemwise_row :: "(real \<Rightarrow> real \<Rightarrow> real) \<Rightarrow> matrix \<Rightarrow> vec \<Rightarrow> error + matrix" where
  "elemwise_row f a v =
     (if ncols a = length v
      then Inr \<lparr>ncols = ncols a, mrows = map (\<lambda>r. map2 f r v) (mrows a)\<rparr>
      else Inl ValueError)"

text \<open>
  A column \<^verbatim>\<open>m[:, None]\<close> on the left of a matrix: the value of each row of the column is
  broadcast over the components of that row; the column's length must be the number of rows.
\<close>

definition elemwise_col :: "(real \<Rightarrow> real \<Rightarrow> real) \<Rightarrow> vec \<Rightarrow> matrix \<Rightarrow> error + matrix" where
  "elemwise_col f c a =
     (if length c = nrows a
      then Inr \<lparr>ncols = ncols a, mrows = map2 (\<lambda>x r. map (f x) r) c (mrows a)\<rparr>
      else Inl ValueError)"

text \<open>The application of an activation brick: the function on every entry.\<close>

definition apply_activation :: "(real \<Rightarrow> real) \<Rightarrow> matrix \<Rightarrow> matrix" where
  "apply_activation f a = \<lparr>ncols = ncols a, mrows = map (map f) (mrows a)\<rparr>"

text \<open>
  \<^verbatim>\<open>x[:, lo:hi]\<close> for \<open>lo \<le> hi\<close>: a slice never raises, it is clipped to the width of \<open>x\<close>.
\<close>

definition slice_cols :: "matrix \<Rightarrow> nat \<Rightarrow> nat \<Rightarrow> matrix" where
  "slice_cols x lo hi =
     \<lparr>ncols = min hi (ncols x) - min lo (ncols x),
      mrows = map (\<lambda>r. take (hi - lo) (drop lo r)) (mrows x)\<rparr>"

text \<open>\<^verbatim>\<open>v[None, :]\<close>: a one-dimensional array as a matrix of one row.\<close>

definition as_row :: "vec \<Rightarrow> matrix" where
  "as_row v = \<lparr>ncols = length v, mrows = [v]\<rparr>"

text \<open>\<^verbatim>\<open>tensor.repeat(x, n, 0)\<close>: every row of \<open>x\<close> repeated \<open>n\<close> times, in place.\<close>

definition repeat0 :: "matrix \<Rightarrow> nat \<Rightarrow> matrix" where
  "repeat0 x n = \<lparr>ncols = ncols x, mrows = concat (map (replicate n) (mrows x))\<rparr>"

text \<open>The default activations: \<^verbatim>\<open>Tanh\<close> is \<^const>\<open>tanh\<close>, \<^verbatim>\<open>Logistic\<close> is the sigmoid.\<close>

definition sigmoid :: "real \<Rightarrow> real" where
  "sigmoid x = 1 / (1 + exp (- x))"

section \<open>The brick \<^verbatim>\<open>DebugLSTM\<close>\<close>

text \<open>
  The shared variables of the brick are objects that \<^verbatim>\<open>_allocate\<close> creates, that the list
  \<^verbatim>\<open>self.parameters\<close> holds as well, and that initialization overwrites in place. The model
  keeps their values in a store indexed by the attribute that holds the variable; an
  attribute that has not been assigned yet has no value there.
\<close>

datatype var = W_state | W_cell_to_in | W_cell_to_forget | W_cell_to_out
  | initial_state' | initial_cells

datatype role = WEIGHT | INITIAL_STATE

datatype shape = Shape1 nat | Shape2 nat nat

datatype ndarray = Vec vec | Mat matrix

fun shape_of :: "ndarray \<Rightarrow> shape" where
  "shape_of (Vec v) = Shape1 (length v)"
| "shape_of (Mat m) = Shape2 (nrows m) (ncols m)"

fun filled :: "shape \<Rightarrow> real \<Rightarrow> ndarray" where
  "filled (Shape1 n) x = Vec (replicate n x)"
| "filled (Shape2 n m) x = Mat \<lparr>ncols = m, mrows = replicate n (replicate m x)\<rparr>"

text \<open>
  \<^verbatim>\<open>shared_floatx_zeros\<close> and \<^verbatim>\<open>shared_floatx_nans\<close> come from the brick library. The second
  fills the array with not-a-number, which the reals do not have: the fill value is a
  parameter \<open>nan\<close> of the model, and nothing below depends on it.
\<close>

definition shared_floatx_zeros :: "shape \<Rightarrow> ndarray" where
  "shared_floatx_zeros s = filled s 0"

definition shared_floatx_nans :: "real \<Rightarrow> shape \<Rightarrow> ndarray" where
  "shared_floatx_nans nan s = filled s nan"

text \<open>
  The fields of the brick. \<open>dim\<close> is the extent of an array, a natural number.
  \<open>weights_init\<close> and \<open>rng\<close> are the initialization scheme and the random state that the
  library's \<^verbatim>\<open>Initializable\<close> keeps: a scheme generates an array for a shape and advances
  the random state.
\<close>

record 'r brick =
  dim :: nat
  activation :: "real \<Rightarrow> real"
  gate_activation :: "real \<Rightarrow> real"
  weights_init :: "'r \<Rightarrow> shape \<Rightarrow> ndarray \<times> 'r"
  rng :: 'r
  shared :: "var \<rightharpoonup> ndarray"
  roles :: "var \<rightharpoonup> role"
  parameters :: "var list"

text \<open>
  \<^verbatim>\<open>__init__\<close>: an activation that is not given is \<^verbatim>\<open>Tanh()\<close>, a gate activation
  \<^verbatim>\<open>Logistic()\<close>. The registration of the two activations as children of the brick
  belongs to the brick library and has no part in what the brick computes.
\<close>

definition init :: "nat \<Rightarrow> (real \<Rightarrow> real) option \<Rightarrow> (real \<Rightarrow> real) option
    \<Rightarrow> ('r \<Rightarrow> shape \<Rightarrow> ndarray \<times> 'r) \<Rightarrow> 'r \<Rightarrow> 'r brick" where
  "init d act gate_act w_init r =
     \<lparr>dim = d,
      activation = (case act of None \<Rightarrow> tanh | Some f \<Rightarrow> f),
      gate_activation = (case gate_act of None \<Rightarrow> sigmoid | Some f \<Rightarrow> f),
      weights_init = w_init,
      rng = r,
      shared = Map.empty,
      roles = Map.empty,
      parameters = []\<rparr>"

text \<open>
  \<^verbatim>\<open>get_dim\<close>. A name the brick does not know goes to the base class, which raises
  \<^verbatim>\<open>ValueError\<close>.
\<close>

definition get_dim :: "'r brick \<Rightarrow> string \<Rightarrow> error + nat" where
  "get_dim self name =
     (if name = ''inputs'' then Inr (dim self * 4)
      else if name \<in> set [''states'', ''cells''] then Inr (dim self)
      else if name = ''mask'' then Inr 0
      else Inl ValueError)"

definition add_role :: "var \<Rightarrow> role \<Rightarrow> 'r brick \<Rightarrow> 'r brick" where
  "add_role v r self = self\<lparr>roles := (roles self)(v \<mapsto> r)\<rparr>"

definition assign :: "var \<Rightarrow> ndarray \<Rightarrow> 'r brick \<Rightarrow> 'r brick" where
  "assign v a self = self\<lparr>shared := (shared self)(v \<mapsto> a)\<rparr>"

text \<open>\<^verbatim>\<open>_allocate\<close>, statement by statement.\<close>

definition allocate :: "real \<Rightarrow> 'r brick \<Rightarrow> 'r brick" where
  "allocate nan self =
     (let s1 = assign W_state (shared_floatx_nans nan (Shape2 (dim self) (4 * dim self))) self;
          s2 = assign W_cell_to_in (shared_floatx_nans nan (Shape1 (dim s1))) s1;
          s3 = assign W_cell_to_forget (shared_floatx_nans nan (Shape1 (dim s2))) s2;
          s4 = assign W_cell_to_out (shared_floatx_nans nan (Shape1 (dim s3))) s3;
          s5 = assign initial_state' (shared_floatx_zeros (Shape1 (dim s4))) s4;
          s6 = assign initial_cells (shared_floatx_zeros (Shape1 (dim s5))) s5;
          s7 = add_role W_state WEIGHT s6;
          s8 = add_role W_cell_to_in WEIGHT s7;
          s9 = add_role W_cell_to_forget WEIGHT s8;
          s10 = add_role W_cell_to_out WEIGHT s9;
          s11 = add_role initial_state' INITIAL_STATE s10;
          s12 = add_role initial_cells INITIAL_STATE s11
      in s12\<lparr>parameters := [W_state, W_cell_to_in, W_cell_to_forget, W_cell_to_out,
                              initial_state', initial_cells]\<rparr>)"

text \<open>
  \<^verbatim>\<open>weights_init.initialize(weights, self.rng)\<close> sets the value of the shared variable to
  an array generated for the shape of its present value. A variable without a value
  cannot be in \<^verbatim>\<open>self.parameters\<close>; the model leaves the store as it is there.
\<close>

definition initialize_var :: "var \<Rightarrow> 'r brick \<Rightarrow> 'r brick" where
  "initialize_var v self =
     (case shared self v of
        None \<Rightarrow> self
      | Some a \<Rightarrow>
          (let (a', r') = weights_init self (rng self) (shape_of a)
           in self\<lparr>rng := r', shared := (shared self)(v \<mapsto> a')\<rparr>))"

text \<open>\<^verbatim>\<open>_initialize\<close>: the loop over \<^verbatim>\<open>self.parameters[:4]\<close>.\<close>

definition initialize :: "'r brick \<Rightarrow> 'r brick" where
  "initialize self = fold initialize_var (take 4 (parameters self)) self"

text \<open>
  Reading a shared variable through its attribute. An attribute that was never assigned
  raises \<^verbatim>\<open>AttributeError\<close>; the rank of a variable is part of its type, and using it at
  another rank is a \<^verbatim>\<open>TypeError\<close> of the library.
\<close>

definition get_matrix :: "'r brick \<Rightarrow> var \<Rightarrow> error + matrix" where
  "get_matrix self v =
     (case shared self v of
        None \<Rightarrow> Inl AttributeError
      | Some (Mat m) \<Rightarrow> Inr m
      | Some (Vec _) \<Rightarrow> Inl TypeError)"

definition get_vec :: "'r brick \<Rightarrow> var \<Rightarrow> error + vec" where
  "get_vec self v =
     (case shared self v of
        None \<Rightarrow> Inl AttributeError
      | Some (Vec x) \<Rightarrow> Inr x
      | Some (Mat _) \<Rightarrow> Inl TypeError)"

text \<open>The local function \<^verbatim>\<open>slice_last\<close> of \<^verbatim>\<open>inner_apply\<close>.\<close>

definition slice_last :: "'r brick \<Rightarrow> matrix \<Rightarrow> nat \<Rightarrow> matrix" where
  "slice_last self x no = slice_cols x (no * dim self) ((no + 1) * dim self)"

text \<open>
  \<^verbatim>\<open>inner_apply\<close>, one transition (the decorator \<^verbatim>\<open>recurrent\<close> of the library, which
  iterates it over a sequence, is not part of the model). \<open>inputs\<close>, \<open>states\<close> and \<open>cells\<close>
  are matrices and the mask, when given, is a one-dimensional array, as the docstring says.

  The test \<^verbatim>\<open>if mask:\<close> is on a symbolic variable of the tensor library, whose truth value
  is \<^verbatim>\<open>True\<close> whatever its entries will be: the branch is taken exactly when a mask is
  given, and \<^verbatim>\<open>None\<close> skips it.
\<close>

definition masked :: "vec \<Rightarrow> matrix \<Rightarrow> matrix \<Rightarrow> error + matrix" where
  "masked mask' new old =
     bind (elemwise_col (*) mask' new) (\<lambda>kept.
     bind (elemwise_col (*) (map (\<lambda>x. 1 - x) mask') old) (\<lambda>carried.
     elemwise (+) kept carried))"

definition inner_apply :: "'r brick \<Rightarrow> matrix \<Rightarrow> matrix \<Rightarrow> matrix \<Rightarrow> vec option
    \<Rightarrow> error + matrix \<times> matrix \<times> matrix \<times> matrix \<times> matrix" where
  "inner_apply self inputs states cells mask' =
     bind (get_matrix self W_state) (\<lambda>w_state.
     bind (dot states w_state) (\<lambda>product.
     bind (elemwise (+) product inputs) (\<lambda>activation'.
     bind (get_vec self W_cell_to_in) (\<lambda>w_in.
     bind (elemwise_row (*) cells w_in) (\<lambda>peep_in.
     bind (elemwise (+) (slice_last self activation' 0) peep_in) (\<lambda>pre_in.
     let in_gate = apply_activation (gate_activation self) pre_in in
     bind (get_vec self W_cell_to_forget) (\<lambda>w_forget.
     bind (elemwise_row (*) cells w_forget) (\<lambda>peep_forget.
     bind (elemwise (+) (slice_last self activation' 1) peep_forget) (\<lambda>pre_forget.
     let forget_gate = apply_activation (gate_activation self) pre_forget in
     bind (elemwise (*) forget_gate cells) (\<lambda>kept.
     bind (elemwise (*) in_gate
             (apply_activation (activation self) (slice_last self activation' 2))) (\<lambda>written.
     bind (elemwise (+) kept written) (\<lambda>next_cells.
     bind (get_vec self W_cell_to_out) (\<lambda>w_out.
     bind (elemwise_row (*) next_cells w_out) (\<lambda>peep_out.
     bind (elemwise (+) (slice_last self activation' 3) peep_out) (\<lambda>pre_out.
     let out_gate = apply_activation (gate_activation self) pre_out in
     bind (elemwise (*) out_gate (apply_activation (activation self) next_cells)) (\<lambda>next_states.
     case mask' of
       None \<Rightarrow> Inr (next_states, next_cells, in_gate, forget_gate, out_gate)
     | Some m \<Rightarrow>
         bind (masked m next_states states) (\<lambda>next_states'.
         bind (masked m next_cells cells) (\<lambda>next_cells'.
         Inr (next_states', next_cells', in_gate, forget_gate, out_gate)))))))))))))))))))"

text \<open>
  \<^verbatim>\<open>apply\<close>: the two states of \<^verbatim>\<open>inner_apply\<close>, with the three gates recorded as auxiliary
  variables of the application call.
\<close>

definition apply_lstm :: "'r brick \<Rightarrow> matrix \<Rightarrow> matrix \<Rightarrow> matrix \<Rightarrow> vec option
    \<Rightarrow> error + (matrix \<times> matrix) \<times> (string \<times> matrix) list" where
  "apply_lstm self inputs states cells mask' =
     bind (inner_apply self inputs states cells mask') (\<lambda>(r0, r1, r2, r3, r4).
     Inr ((r0, r1), [(''input_gates'', r2), (''forget_gates'', r3), (''output_gates'', r4)]))"

text \<open>\<^verbatim>\<open>initial_states\<close>; a batch size is the extent of an array, a natural number.\<close>

definition initial_states :: "'r brick \<Rightarrow> nat \<Rightarrow> error + matrix \<times> matrix" where
  "initial_states self batch_size =
     bind (get_vec self initial_state') (\<lambda>s.
     bind (get_vec self initial_cells) (\<lambda>c.
     Inr (repeat0 (as_row s) batch_size, repeat0 (as_row c) batch_size)))"

section \<open>The transition as the specification words it\<close>

text \<open>A matrix given by its entries: \<open>n\<close> rows, \<open>m\<close> columns, entry \<open>f b j\<close> in row \<open>b\<close>, column \<open>j\<close>.\<close>

definition tabulate :: "nat \<Rightarrow> nat \<Rightarrow> (nat \<Rightarrow> nat \<Rightarrow> real) \<Rightarrow> matrix" where
  "tabulate n m f = \<lparr>ncols = m, mrows = map (\<lambda>b. map (f b) [0..<m]) [0..<n]\<rparr>"

text \<open>
  The learned weights that a transition reads: the state matrix and the three peephole
  vectors, to the input, forget and output gates.
\<close>

type_synonym weights = "matrix \<times> vec \<times> vec \<times> vec"

text \<open>
  The steps 1 to 7 of the specification, entry by entry, for the row \<open>b\<close> of the batch and
  the component \<open>j\<close> of the state. The four chunks of the projection start at the columns
  \<open>0\<close>, \<open>dim\<close>, \<open>2 dim\<close> and \<open>3 dim\<close>, where \<open>dim\<close> is the number of rows of the state matrix.
  \<open>gate\<close> is the activation of the gates and \<open>act\<close> the main activation.
\<close>

definition spec_projection :: "matrix \<Rightarrow> matrix \<Rightarrow> matrix \<Rightarrow> nat \<Rightarrow> nat \<Rightarrow> real" where
  "spec_projection w inputs hidden b c =
     (\<Sum>k<nrows w. entry hidden b k * entry w k c) + entry inputs b c"

definition spec_input_gate :: "(real \<Rightarrow> real) \<Rightarrow> weights \<Rightarrow> matrix \<Rightarrow> matrix \<Rightarrow> matrix
    \<Rightarrow> nat \<Rightarrow> nat \<Rightarrow> real" where
  "spec_input_gate gate ws inputs hidden cell b j =
     (case ws of (w, w_in, w_forget, w_out) \<Rightarrow>
        gate (spec_projection w inputs hidden b j + entry cell b j * w_in ! j))"

definition spec_forget_gate :: "(real \<Rightarrow> real) \<Rightarrow> weights \<Rightarrow> matrix \<Rightarrow> matrix \<Rightarrow> matrix
    \<Rightarrow> nat \<Rightarrow> nat \<Rightarrow> real" where
  "spec_forget_gate gate ws inputs hidden cell b j =
     (case ws of (w, w_in, w_forget, w_out) \<Rightarrow>
        gate (spec_projection w inputs hidden b (nrows w + j) + entry cell b j * w_forget ! j))"

definition spec_next_cell :: "(real \<Rightarrow> real) \<Rightarrow> (real \<Rightarrow> real) \<Rightarrow> weights
    \<Rightarrow> matrix \<Rightarrow> matrix \<Rightarrow> matrix \<Rightarrow> nat \<Rightarrow> nat \<Rightarrow> real" where
  "spec_next_cell gate act ws inputs hidden cell b j =
     (case ws of (w, w_in, w_forget, w_out) \<Rightarrow>
        spec_forget_gate gate ws inputs hidden cell b j * entry cell b j
        + spec_input_gate gate ws inputs hidden cell b j
          * act (spec_projection w inputs hidden b (2 * nrows w + j)))"

definition spec_output_gate :: "(real \<Rightarrow> real) \<Rightarrow> (real \<Rightarrow> real) \<Rightarrow> weights
    \<Rightarrow> matrix \<Rightarrow> matrix \<Rightarrow> matrix \<Rightarrow> nat \<Rightarrow> nat \<Rightarrow> real" where
  "spec_output_gate gate act ws inputs hidden cell b j =
     (case ws of (w, w_in, w_forget, w_out) \<Rightarrow>
        gate (spec_projection w inputs hidden b (3 * nrows w + j)
              + spec_next_cell gate act ws inputs hidden cell b j * w_out ! j))"

definition spec_next_hidden :: "(real \<Rightarrow> real) \<Rightarrow> (real \<Rightarrow> real) \<Rightarrow> weights
    \<Rightarrow> matrix \<Rightarrow> matrix \<Rightarrow> matrix \<Rightarrow> nat \<Rightarrow> nat \<Rightarrow> real" where
  "spec_next_hidden gate act ws inputs hidden cell b j =
     spec_output_gate gate act ws inputs hidden cell b j
     * act (spec_next_cell gate act ws inputs hidden cell b j)"

text \<open>
  The five results of one unmasked transition, in the order of the source: next hidden
  state, next cell state, input gate, forget gate, output gate.
\<close>

definition spec_step :: "(real \<Rightarrow> real) \<Rightarrow> (real \<Rightarrow> real) \<Rightarrow> weights \<Rightarrow> matrix \<Rightarrow> matrix \<Rightarrow> matrix
    \<Rightarrow> matrix \<times> matrix \<times> matrix \<times> matrix \<times> matrix" where
  "spec_step gate act ws inputs hidden cell =
     (let n = nrows inputs; d = ncols cell
      in (tabulate n d (spec_next_hidden gate act ws inputs hidden cell),
          tabulate n d (spec_next_cell gate act ws inputs hidden cell),
          tabulate n d (spec_input_gate gate ws inputs hidden cell),
          tabulate n d (spec_forget_gate gate ws inputs hidden cell),
          tabulate n d (spec_output_gate gate act ws inputs hidden cell)))"

text \<open>
  Step 8, the blend under a mask: the mask value of the row \<open>b\<close> weighs the new value of
  every component of that row, and one minus it the old value.
\<close>

definition spec_blend :: "vec \<Rightarrow> matrix \<Rightarrow> matrix \<Rightarrow> matrix" where
  "spec_blend m new old =
     tabulate (length m) (ncols old) (\<lambda>b j. m ! b * entry new b j + (1 - m ! b) * entry old b j)"

text \<open>
  The brick holds the weights \<open>ws\<close>, with the shapes that \<^verbatim>\<open>_allocate\<close> gives its shared
  variables (an initialization scheme keeps the shape it is asked for).
\<close>

definition holds :: "'r brick \<Rightarrow> weights \<Rightarrow> bool" where
  "holds self ws =
     (case ws of (w, w_in, w_forget, w_out) \<Rightarrow>
        shared self W_state = Some (Mat w)
        \<and> shared self W_cell_to_in = Some (Vec w_in)
        \<and> shared self W_cell_to_forget = Some (Vec w_forget)
        \<and> shared self W_cell_to_out = Some (Vec w_out)
        \<and> wf_matrix w \<and> nrows w = dim self \<and> ncols w = 4 * dim self
        \<and> length w_in = dim self \<and> length w_forget = dim self \<and> length w_out = dim self)"

text \<open>
  The arguments of a transition have matching dimensions: inputs of shape
  \<open>(batch, 4 dim)\<close>, hidden and cell states of shape \<open>(batch, dim)\<close>.
\<close>

definition fits :: "'r brick \<Rightarrow> matrix \<Rightarrow> matrix \<Rightarrow> matrix \<Rightarrow> bool" where
  "fits self inputs states cells =
     (wf_matrix inputs \<and> wf_matrix states \<and> wf_matrix cells
      \<and> ncols inputs = 4 * dim self \<and> ncols states = dim self \<and> ncols cells = dim self
      \<and> nrows states = nrows inputs \<and> nrows cells = nrows inputs)"

text \<open>A mask, when given, has one entry for each row of the batch.\<close>

definition mask_fits :: "vec option \<Rightarrow> matrix \<Rightarrow> bool" where
  "mask_fits mask' inputs = (case mask' of None \<Rightarrow> True | Some m \<Rightarrow> length m = nrows inputs)"

section \<open>The dictionary of definitions\<close>








section \<open>A brick and a batch to run the transition on\<close>

text \<open>
  A brick of dimension one with the default activations, allocated and then initialized
  by the scheme that sets every weight to one half; a batch of two rows.
\<close>

definition example_init :: "unit \<Rightarrow> shape \<Rightarrow> ndarray \<times> unit" where
  "example_init r s = (filled s (1 / 2), r)"

definition example_brick :: "unit brick" where
  "example_brick = initialize (allocate 0 (init 1 None None example_init ()))"

definition example_weights :: weights where
  "example_weights = (\<lparr>ncols = 4, mrows = [[1 / 2, 1 / 2, 1 / 2, 1 / 2]]\<rparr>, [1 / 2], [1 / 2], [1 / 2])"

definition example_inputs :: matrix where
  "example_inputs = \<lparr>ncols = 4, mrows = [[1, 2, 3, 4], [0, -1, 0, 1]]\<rparr>"

definition example_states :: matrix where
  "example_states = \<lparr>ncols = 1, mrows = [[1], [0]]\<rparr>"

definition example_cells :: matrix where
  "example_cells = \<lparr>ncols = 1, mrows = [[2], [-1]]\<rparr>"

text \<open>Inputs three columns wide, where the brick expects four.\<close>

definition narrow_inputs :: matrix where
  "narrow_inputs = \<lparr>ncols = 3, mrows = [[1, 2, 3], [0, -1, 0]]\<rparr>"

section \<open>Matrices by their entries\<close>

lemma nrows_tabulate [simp]: "nrows (tabulate n m f) = n"
  by (simp add: nrows_def tabulate_def)

lemma ncols_tabulate [simp]: "ncols (tabulate n m f) = m"
  by (simp add: tabulate_def)

lemma wf_tabulate [simp]: "wf_matrix (tabulate n m f)"
  by (simp add: wf_matrix_def tabulate_def list_all_iff)

lemma entry_tabulate [simp]: "b < n \<Longrightarrow> j < m \<Longrightarrow> entry (tabulate n m f) b j = f b j"
  by (simp add: entry_def tabulate_def)

lemma tabulate_cong:
  "(\<And>b j. b < n \<Longrightarrow> j < m \<Longrightarrow> f b j = g b j) \<Longrightarrow> tabulate n m f = tabulate n m g"
  by (simp add: tabulate_def)

lemma matrix_is_tabulate:
  assumes "wf_matrix a"
  shows "a = tabulate (nrows a) (ncols a) (entry a)"
proof -
  have "mrows a = map (\<lambda>b. map (entry a b) [0..<ncols a]) [0..<nrows a]"
  proof (rule nth_equalityI)
    show "length (mrows a) = length (map (\<lambda>b. map (entry a b) [0..<ncols a]) [0..<nrows a])"
      by (simp add: nrows_def)
  next
    fix i assume i: "i < length (mrows a)"
    then have len: "length (mrows a ! i) = ncols a"
      using assms by (simp add: wf_matrix_def list_all_length)
    have "mrows a ! i = map (entry a i) [0..<ncols a]"
      by (rule nth_equalityI) (simp_all add: len entry_def)
    then show "mrows a ! i = map (\<lambda>b. map (entry a b) [0..<ncols a]) [0..<nrows a] ! i"
      using i by (simp add: nrows_def)
  qed
  then show ?thesis
    by (simp add: tabulate_def)
qed

lemma map2_same: "map2 f (map g xs) (map h xs) = map (\<lambda>x. f (g x) (h x)) xs"
  by (induction xs) simp_all

lemma map2_upt_right:
  assumes "length v = m"
  shows "map2 f (map g [0..<m]) v = map (\<lambda>j. f (g j) (v ! j)) [0..<m]"
proof -
  have "v = map (\<lambda>j. v ! j) [0..<m]"
    using assms map_nth [of v] by simp
  then have "map2 f (map g [0..<m]) v = map2 f (map g [0..<m]) (map (\<lambda>j. v ! j) [0..<m])"
    by simp
  then show ?thesis
    by (simp only: map2_same)
qed

lemma map2_upt_left:
  assumes "length c = n"
  shows "map2 f c (map g [0..<n]) = map (\<lambda>b. f (c ! b) (g b)) [0..<n]"
proof -
  have "c = map (\<lambda>j. c ! j) [0..<n]"
    using assms map_nth [of c] by simp
  then have "map2 f c (map g [0..<n]) = map2 f (map (\<lambda>j. c ! j) [0..<n]) (map g [0..<n])"
    by simp
  then show ?thesis
    by (simp only: map2_same)
qed

lemma sum_list_upt: "sum_list (map f [0..<n]) = (\<Sum>k<n. f k)"
  by (simp add: interv_sum_list_conv_sum_set_nat atLeast0LessThan)

section \<open>The tensor operators on matrices given by their entries\<close>

lemma dot_tabulate:
  assumes "nrows b = k"
  shows "dot (tabulate n k f) b =
    Inr (tabulate n (ncols b) (\<lambda>r j. sum_list (map (\<lambda>i. f r i * entry b i j) [0..<k])))"
  using assms
  by (auto simp add: dot_def tabulate_def nrows_def intro!: arg_cong [where f = sum_list])

lemma elemwise_tabulate:
  "elemwise f (tabulate n m g) (tabulate n m h) = Inr (tabulate n m (\<lambda>b j. f (g b j) (h b j)))"
  by (simp add: elemwise_def nrows_def tabulate_def map2_same)

lemma elemwise_row_tabulate:
  "length v = m \<Longrightarrow>
   elemwise_row f (tabulate n m g) v = Inr (tabulate n m (\<lambda>b j. f (g b j) (v ! j)))"
  by (simp add: elemwise_row_def tabulate_def map2_upt_right)

lemma elemwise_col_tabulate:
  "length c = n \<Longrightarrow>
   elemwise_col f c (tabulate n m g) = Inr (tabulate n m (\<lambda>b j. f (c ! b) (g b j)))"
  by (simp add: elemwise_col_def nrows_def tabulate_def map2_upt_left)

lemma apply_activation_tabulate:
  "apply_activation f (tabulate n m g) = tabulate n m (\<lambda>b j. f (g b j))"
  by (simp add: apply_activation_def tabulate_def)

lemma slice_cols_tabulate:
  assumes "lo \<le> hi" "hi \<le> m"
  shows "slice_cols (tabulate n m g) lo hi = tabulate n (hi - lo) (\<lambda>b j. g b (lo + j))"
proof -
  have "take (hi - lo) (drop lo [0..<m]) = map (\<lambda>j. lo + j) [0..<hi - lo]"
    using assms by (intro nth_equalityI) simp_all
  then show ?thesis
    using assms by (simp add: slice_cols_def tabulate_def take_map drop_map comp_def)
qed

lemma slice_last_tabulate:
  "no < 4 \<Longrightarrow> slice_last self (tabulate n (4 * dim self) g) no
     = tabulate n (dim self) (\<lambda>b j. g b (no * dim self + j))"
  by (simp add: slice_last_def slice_cols_tabulate)

lemma masked_tabulate:
  assumes "length m = n"
  shows "masked m (tabulate n d f) (tabulate n d g)
    = Inr (tabulate n d (\<lambda>b j. m ! b * f b j + (1 - m ! b) * g b j))"
proof -
  have "tabulate n d (\<lambda>b j. map (\<lambda>x. 1 - x) m ! b * g b j)
      = tabulate n d (\<lambda>b j. (1 - m ! b) * g b j)"
    using assms by (intro tabulate_cong) simp
  then show ?thesis
    using assms by (simp add: masked_def elemwise_col_tabulate elemwise_tabulate)
qed

lemma masked_spec_blend:
  assumes "wf_matrix new" "wf_matrix old" "nrows new = length m" "nrows old = length m"
    "ncols new = ncols old"
  shows "masked m new old = Inr (spec_blend m new old)"
proof -
  have "masked m (tabulate (length m) (ncols old) (entry new))
          (tabulate (length m) (ncols old) (entry old))
    = Inr (spec_blend m new old)"
    by (simp add: masked_tabulate spec_blend_def)
  then show ?thesis
    using assms matrix_is_tabulate [of new] matrix_is_tabulate [of old] by simp
qed


lemma spec_blend_ones:
  assumes "wf_matrix new" "nrows new = n" "ncols new = ncols old"
  shows "spec_blend (replicate n 1) new old = new"
proof -
  have "spec_blend (replicate n 1) new old = tabulate n (ncols old) (entry new)"
    unfolding spec_blend_def by (simp, intro tabulate_cong) simp
  then show ?thesis
    using assms matrix_is_tabulate [of new] by simp
qed

section \<open>One transition\<close>

lemma bind_case: "bind m f = (case m of Inl e \<Rightarrow> Inl e | Inr x \<Rightarrow> f x)"
  by (cases m) simp_all

lemma inner_apply_tabulate:
  assumes w: "shared self W_state = Some (Mat w)" "nrows w = dim self" "ncols w = 4 * dim self"
    and v: "shared self W_cell_to_in = Some (Vec w_in)" "length w_in = dim self"
      "shared self W_cell_to_forget = Some (Vec w_forget)" "length w_forget = dim self"
      "shared self W_cell_to_out = Some (Vec w_out)" "length w_out = dim self"
    and x: "x = tabulate n (4 * dim self) (entry x)"
    and h: "h = tabulate n (dim self) (entry h)"
    and c: "c = tabulate n (dim self) (entry c)"
  shows "inner_apply self x h c None =
     Inr (spec_step (gate_activation self) (activation self) (w, w_in, w_forget, w_out) x h c)"
proof -
  have nx: "nrows x = n" and nc: "ncols c = dim self"
    by (subst x, simp) (subst c, simp)
  have "inner_apply self (tabulate n (4 * dim self) (entry x)) (tabulate n (dim self) (entry h))
      (tabulate n (dim self) (entry c)) None =
     Inr (spec_step (gate_activation self) (activation self) (w, w_in, w_forget, w_out) x h c)"
    apply (simp add: inner_apply_def get_matrix_def get_vec_def w v dot_tabulate elemwise_tabulate
      elemwise_row_tabulate apply_activation_tabulate slice_last_tabulate Let_def spec_step_def
      nx nc)
    apply (intro conjI tabulate_cong)
    apply (simp_all add: spec_next_hidden_def spec_next_cell_def spec_output_gate_def
      spec_input_gate_def spec_forget_gate_def spec_projection_def sum_list_upt w add.commute)
    done
  then show ?thesis
    using x h c by simp
qed

lemma inner_apply_unmasked:
  assumes "holds self ws" "fits self inputs states cells"
  shows "inner_apply self inputs states cells None =
     Inr (spec_step (gate_activation self) (activation self) ws inputs states cells)"
proof -
  obtain w w_in w_forget w_out where ws: "ws = (w, w_in, w_forget, w_out)"
    by (cases ws) auto
  have x: "inputs = tabulate (nrows inputs) (4 * dim self) (entry inputs)"
    using assms(2) matrix_is_tabulate [of inputs] by (simp add: fits_def)
  have h: "states = tabulate (nrows inputs) (dim self) (entry states)"
    using assms(2) matrix_is_tabulate [of states] by (simp add: fits_def)
  have c: "cells = tabulate (nrows inputs) (dim self) (entry cells)"
    using assms(2) matrix_is_tabulate [of cells] by (simp add: fits_def)
  show ?thesis
    unfolding ws
    by (rule inner_apply_tabulate [OF _ _ _ _ _ _ _ _ _ x h c])
       (use assms(1) in \<open>simp_all add: holds_def ws\<close>)
qed

lemma inner_apply_masked:
  "inner_apply self inputs states cells (Some m) =
     bind (inner_apply self inputs states cells None) (\<lambda>(ns, nc, ig, fg, og).
     bind (masked m ns states) (\<lambda>ns'.
     bind (masked m nc cells) (\<lambda>nc'.
     Inr (ns', nc', ig, fg, og))))"
  by (simp add: inner_apply_def Let_def bind_case split: sum.splits)

lemma spec_step_shapes:
  assumes "spec_step gate act ws inputs states cells = (ns, nc, ig, fg, og)"
  shows "wf_matrix ns \<and> nrows ns = nrows inputs \<and> ncols ns = ncols cells
       \<and> wf_matrix nc \<and> nrows nc = nrows inputs \<and> ncols nc = ncols cells"
  using assms by (auto simp add: spec_step_def Let_def)

lemma unmasked_shapes:
  assumes "holds self ws" "fits self inputs states cells"
    and "inner_apply self inputs states cells None = Inr (ns, nc, ig, fg, og)"
  shows "wf_matrix ns \<and> nrows ns = nrows inputs \<and> ncols ns = dim self
       \<and> wf_matrix nc \<and> nrows nc = nrows inputs \<and> ncols nc = dim self"
proof -
  have "spec_step (gate_activation self) (activation self) ws inputs states cells
      = (ns, nc, ig, fg, og)"
    using inner_apply_unmasked [OF assms(1,2)] assms(3) by simp
  from spec_step_shapes [OF this] show ?thesis
    using assms(2) by (simp add: fits_def)
qed

lemma inner_apply_blend:
  assumes "holds self ws" "fits self inputs states cells" "length m = nrows inputs"
    and "inner_apply self inputs states cells None = Inr (ns, nc, ig, fg, og)"
  shows "inner_apply self inputs states cells (Some m) =
    Inr (spec_blend m ns states, spec_blend m nc cells, ig, fg, og)"
proof -
  note sh = unmasked_shapes [OF assms(1,2,4)]
  have 1: "masked m ns states = Inr (spec_blend m ns states)"
    using sh assms(2,3) by (intro masked_spec_blend) (simp_all add: fits_def)
  have 2: "masked m nc cells = Inr (spec_blend m nc cells)"
    using sh assms(2,3) by (intro masked_spec_blend) (simp_all add: fits_def)
  show ?thesis
    by (simp add: inner_apply_masked assms(4) 1 2)
qed

section \<open>The example brick\<close>

lemma example_holds: "holds example_brick example_weights"
  by (simp add: holds_def example_brick_def example_weights_def initialize_def allocate_def
    init_def assign_def add_role_def initialize_var_def example_init_def shared_floatx_nans_def
    shared_floatx_zeros_def Let_def wf_matrix_def nrows_def eval_nat_numeral)

lemma example_dim: "dim example_brick = 1"
  by (simp add: example_brick_def initialize_def allocate_def
    init_def assign_def add_role_def initialize_var_def example_init_def shared_floatx_nans_def
    shared_floatx_zeros_def Let_def)

lemma example_activations:
  "gate_activation example_brick = sigmoid" "activation example_brick = tanh"
  by (simp_all add: example_brick_def initialize_def allocate_def
    init_def assign_def add_role_def initialize_var_def example_init_def shared_floatx_nans_def
    shared_floatx_zeros_def Let_def)

lemma example_fits: "fits example_brick example_inputs example_states example_cells"
  by (simp add: fits_def example_dim example_inputs_def example_states_def example_cells_def
    wf_matrix_def nrows_def)

section \<open>Allocation and initialization\<close>

lemma initialize_var_other:
  "v \<noteq> u \<Longrightarrow> shared (initialize_var u self) v = shared self v"
  by (simp add: initialize_var_def split: option.splits prod.splits)

lemma fold_initialize_var_other:
  "v \<notin> set us \<Longrightarrow> shared (fold initialize_var us self) v = shared self v"
  by (induction us arbitrary: self) (simp_all add: initialize_var_other)

lemma initialize_frame:
  "v \<notin> set (take 4 (parameters self)) \<Longrightarrow> shared (initialize self) v = shared self v"
  by (simp add: initialize_def fold_initialize_var_other)

lemma allocate_parameters:
  "parameters (allocate nan self)
    = [W_state, W_cell_to_in, W_cell_to_forget, W_cell_to_out, initial_state', initial_cells]"
  by (simp add: allocate_def Let_def)

lemma allocate_initial:
  "shared (allocate nan self) initial_state' = Some (Vec (replicate (dim self) 0))"
  "shared (allocate nan self) initial_cells = Some (Vec (replicate (dim self) 0))"
  by (simp_all add: allocate_def Let_def assign_def add_role_def shared_floatx_zeros_def)

section \<open>Facts about the examples\<close>

lemma example_unmasked:
  "inner_apply example_brick example_inputs example_states example_cells None
    = Inr (spec_step sigmoid tanh example_weights example_inputs example_states example_cells)"
  using inner_apply_unmasked [OF example_holds example_fits] by (simp add: example_activations)

lemma example_nrows: "nrows example_inputs = 2"
  by (simp add: example_inputs_def nrows_def)

lemma example_initial:
  "shared example_brick initial_state' = Some (Vec [0])"
  "shared example_brick initial_cells = Some (Vec [0])"
  by (simp_all add: example_brick_def initialize_def allocate_def
    init_def assign_def add_role_def initialize_var_def example_init_def shared_floatx_nans_def
    shared_floatx_zeros_def Let_def)


section \<open>The claims of the specification\<close>

text \<open>
  Claim C1. For a brick that holds its weights with the shapes of its allocation and has
  the default activations (sigmoid for the gates, tanh otherwise), and for inputs of shape
  \<open>(batch, 4 dim)\<close> with hidden and cell states of shape \<open>(batch, dim)\<close>, one unmasked
  transition returns what the specification words: the projection is the product of the
  hidden state with the state matrix plus the inputs; its four chunks of \<open>dim\<close> columns
  feed, in this order, the input gate, the forget gate, the cell candidate and the output
  gate; the input and forget gates see the previous cell state through their peephole,
  the output gate the new one; the next hidden state is the output gate times the tanh of
  the next cell state.
\<close>

theorem step_computes_gates:
  assumes "holds self ws" and "fits self inputs states cells"
    and "gate_activation self = sigmoid" and "activation self = tanh"
  shows "inner_apply self inputs states cells None
    = Inr (spec_step sigmoid tanh ws inputs states cells)"
  using inner_apply_unmasked [OF assms(1,2)] assms(3,4) by simp

theorem step_computes_gates_witness:
  "holds example_brick example_weights
   \<and> fits example_brick example_inputs example_states example_cells
   \<and> gate_activation example_brick = sigmoid \<and> activation example_brick = tanh
   \<and> inner_apply example_brick example_inputs example_states example_cells None
       = Inr (spec_step sigmoid tanh example_weights example_inputs example_states example_cells)"
  using step_computes_gates [OF example_holds example_fits example_activations]
    example_holds example_fits example_activations
  by simp


text \<open>
  Claim C3. With a mask of one entry for each row of the batch, the hidden state and the
  cell state that the transition returns are the blend, entry by entry, of the values
  that the unmasked transition returns and of the previous values: the mask entry of the
  row times the new value plus one minus it times the old value, the same mask entry for
  every component of the row. The gates are those of the unmasked transition.
\<close>

theorem masked_step_blends:
  assumes "holds self ws" and "fits self inputs states cells"
    and "length m = nrows inputs"
    and "inner_apply self inputs states cells None = Inr (new_states, new_cells, ig, fg, og)"
  shows "inner_apply self inputs states cells (Some m)
    = Inr (spec_blend m new_states states, spec_blend m new_cells cells, ig, fg, og)"
  using assms by (rule inner_apply_blend)

theorem masked_step_blends_witness:
  "holds example_brick example_weights
   \<and> fits example_brick example_inputs example_states example_cells
   \<and> length [1, 0 :: real] = nrows example_inputs
   \<and> inner_apply example_brick example_inputs example_states example_cells (Some [1, 0])
       = (case spec_step sigmoid tanh example_weights example_inputs example_states example_cells of
            (new_states, new_cells, ig, fg, og) \<Rightarrow>
              Inr (spec_blend [1, 0] new_states example_states,
                   spec_blend [1, 0] new_cells example_cells, ig, fg, og))"
proof -
  obtain ns nc ig fg og where s:
    "spec_step sigmoid tanh example_weights example_inputs example_states example_cells
      = (ns, nc, ig, fg, og)"
    by (metis prod_cases5)
  have l: "length [1, 0 :: real] = nrows example_inputs"
    by (simp add: example_nrows)
  have r: "inner_apply example_brick example_inputs example_states example_cells None
      = Inr (ns, nc, ig, fg, og)"
    using example_unmasked s by simp
  show ?thesis
    using masked_step_blends [OF example_holds example_fits l r] example_holds example_fits l s
    by simp
qed



text \<open>
  Claim C5. With a mask of ones the transition returns what it returns without a mask.
\<close>

theorem ones_mask_is_unmasked:
  assumes "holds self ws" and "fits self inputs states cells"
  shows "inner_apply self inputs states cells (Some (replicate (nrows inputs) 1))
    = inner_apply self inputs states cells None"
proof -
  obtain ns nc ig fg og where r:
    "inner_apply self inputs states cells None = Inr (ns, nc, ig, fg, og)"
    using inner_apply_unmasked [OF assms] by (metis prod_cases5)
  note sh = unmasked_shapes [OF assms r]
  have "inner_apply self inputs states cells (Some (replicate (nrows inputs) 1))
    = Inr (spec_blend (replicate (nrows inputs) 1) ns states,
           spec_blend (replicate (nrows inputs) 1) nc cells, ig, fg, og)"
    using assms r by (intro inner_apply_blend) simp_all
  moreover have "spec_blend (replicate (nrows inputs) 1) ns states = ns"
    using assms(2) sh by (intro spec_blend_ones) (simp_all add: fits_def)
  moreover have "spec_blend (replicate (nrows inputs) 1) nc cells = nc"
    using assms(2) sh by (intro spec_blend_ones) (simp_all add: fits_def)
  ultimately show ?thesis
    using r by simp
qed

theorem ones_mask_is_unmasked_witness:
  "holds example_brick example_weights
   \<and> fits example_brick example_inputs example_states example_cells
   \<and> inner_apply example_brick example_inputs example_states example_cells (Some [1, 1])
       = inner_apply example_brick example_inputs example_states example_cells None"
  using ones_mask_is_unmasked [OF example_holds example_fits] example_holds example_fits
  by (simp add: example_nrows eval_nat_numeral)

text \<open>
  Claim C6. For a brick whose initial hidden state is the vector \<open>s\<close> and whose initial
  cell state is the vector \<open>c\<close>, \<^verbatim>\<open>initial_states\<close> for the batch size \<open>n\<close> returns two
  matrices of exactly \<open>n\<close> rows, every row of the first being \<open>s\<close> and every row of the
  second \<open>c\<close>.
\<close>

theorem initial_states_broadcast:
  assumes "shared self initial_state' = Some (Vec s)"
    and "shared self initial_cells = Some (Vec c)"
  shows "initial_states self n
    = Inr (\<lparr>ncols = length s, mrows = replicate n s\<rparr>, \<lparr>ncols = length c, mrows = replicate n c\<rparr>)"
  using assms by (simp add: initial_states_def get_vec_def repeat0_def as_row_def)

theorem initial_states_broadcast_witness:
  "shared example_brick initial_state' = Some (Vec [0])
   \<and> shared example_brick initial_cells = Some (Vec [0])
   \<and> initial_states example_brick 3
       = Inr (\<lparr>ncols = 1, mrows = [[0], [0], [0]]\<rparr>, \<lparr>ncols = 1, mrows = [[0], [0], [0]]\<rparr>)"
  using initial_states_broadcast [OF example_initial, of 3] example_initial
  by (simp add: eval_nat_numeral)




text \<open>
  Claim C8. When the widths of the inputs and of the two states are those that
  \<^verbatim>\<open>get_dim\<close> announces, the three have the same number of rows and the mask, if any,
  has one entry for each row, the transition returns a next hidden state and a next cell
  state of the shape of the states it was given.
\<close>

theorem step_keeps_shape:
  assumes "holds self ws"
    and "wf_matrix inputs" and "wf_matrix states" and "wf_matrix cells"
    and "get_dim self ''inputs'' = Inr (ncols inputs)"
    and "get_dim self ''states'' = Inr (ncols states)"
    and "get_dim self ''cells'' = Inr (ncols cells)"
    and "nrows states = nrows inputs" and "nrows cells = nrows inputs"
    and "mask_fits mask' inputs"
  shows "\<exists>ns nc ig fg og.
    inner_apply self inputs states cells mask' = Inr (ns, nc, ig, fg, og)
    \<and> wf_matrix ns \<and> nrows ns = nrows states \<and> ncols ns = ncols states
    \<and> wf_matrix nc \<and> nrows nc = nrows cells \<and> ncols nc = ncols cells"
proof -
  have f: "fits self inputs states cells"
    using assms(2-9) by (simp add: fits_def get_dim_def)
  obtain ns nc ig fg og where r:
    "inner_apply self inputs states cells None = Inr (ns, nc, ig, fg, og)"
    using inner_apply_unmasked [OF assms(1) f] by (metis prod_cases5)
  note sh = unmasked_shapes [OF assms(1) f r]
  show ?thesis
  proof (cases mask')
    case None
    then show ?thesis
      using r sh f by (simp add: fits_def)
  next
    case (Some m)
    then have "length m = nrows inputs"
      using assms(10) by (simp add: mask_fits_def)
    from inner_apply_blend [OF assms(1) f this r] show ?thesis
      using Some f by (simp add: spec_blend_def fits_def \<open>length m = nrows inputs\<close>)
  qed
qed

theorem step_keeps_shape_witness:
  "holds example_brick example_weights
   \<and> wf_matrix example_inputs \<and> wf_matrix example_states \<and> wf_matrix example_cells
   \<and> get_dim example_brick ''inputs'' = Inr (ncols example_inputs)
   \<and> get_dim example_brick ''states'' = Inr (ncols example_states)
   \<and> get_dim example_brick ''cells'' = Inr (ncols example_cells)
   \<and> nrows example_states = nrows example_inputs
   \<and> nrows example_cells = nrows example_inputs
   \<and> mask_fits (Some [1, 0]) example_inputs
   \<and> (\<exists>ns nc ig fg og.
        inner_apply example_brick example_inputs example_states example_cells (Some [1, 0])
          = Inr (ns, nc, ig, fg, og)
        \<and> wf_matrix ns \<and> nrows ns = 2 \<and> ncols ns = 1
        \<and> wf_matrix nc \<and> nrows nc = 2 \<and> ncols nc = 1)"
proof -
  have w: "wf_matrix example_inputs" "wf_matrix example_states" "wf_matrix example_cells"
    by (simp_all add: wf_matrix_def example_inputs_def example_states_def example_cells_def)
  have d: "get_dim example_brick ''inputs'' = Inr (ncols example_inputs)"
    "get_dim example_brick ''states'' = Inr (ncols example_states)"
    "get_dim example_brick ''cells'' = Inr (ncols example_cells)"
    by (simp_all add: get_dim_def example_dim example_inputs_def example_states_def
      example_cells_def)
  have n: "nrows example_states = nrows example_inputs"
    "nrows example_cells = nrows example_inputs"
    by (simp_all add: nrows_def example_inputs_def example_states_def example_cells_def)
  have m: "mask_fits (Some [1, 0]) example_inputs"
    by (simp add: mask_fits_def example_nrows)
  have c: "nrows example_states = 2" "ncols example_states = 1"
    "nrows example_cells = 2" "ncols example_cells = 1"
    by (simp_all add: nrows_def example_states_def example_cells_def)
  show ?thesis
    using step_keeps_shape [OF example_holds w d n m] example_holds w d n m
    by (simp add: c)
qed

text \<open>
  Claim C9. Inputs whose width is not four times the dimension of the brick make the
  transition fail with the shape-mismatch error of the tensor library, at the product or
  at the first sum, whatever the other arguments are; with arguments of matching
  dimensions the transition returns a result and raises nothing.
\<close>

theorem width_mismatch_fails:
  assumes "holds self ws"
  shows "(ncols inputs \<noteq> 4 * dim self
            \<longrightarrow> inner_apply self inputs states cells mask' = Inl ValueError)
       \<and> (fits self inputs states cells \<and> mask_fits mask' inputs
            \<longrightarrow> (\<exists>r. inner_apply self inputs states cells mask' = Inr r))"
proof (intro conjI impI)
  assume "ncols inputs \<noteq> 4 * dim self"
  then show "inner_apply self inputs states cells mask' = Inl ValueError"
    using assms
    by (cases ws) (simp add: holds_def inner_apply_def get_matrix_def dot_def elemwise_def)
next
  assume a: "fits self inputs states cells \<and> mask_fits mask' inputs"
  obtain ns nc ig fg og where r:
    "inner_apply self inputs states cells None = Inr (ns, nc, ig, fg, og)"
    using inner_apply_unmasked [OF assms] a by (metis prod_cases5)
  show "\<exists>r. inner_apply self inputs states cells mask' = Inr r"
  proof (cases mask')
    case None
    then show ?thesis using r by simp
  next
    case (Some m)
    then have "length m = nrows inputs"
      using a by (simp add: mask_fits_def)
    from inner_apply_blend [OF assms _ this r] show ?thesis
      using Some a by simp
  qed
qed

theorem width_mismatch_fails_witness:
  "holds example_brick example_weights
   \<and> ncols narrow_inputs \<noteq> 4 * dim example_brick
   \<and> inner_apply example_brick narrow_inputs example_states example_cells None = Inl ValueError
   \<and> fits example_brick example_inputs example_states example_cells
   \<and> mask_fits None example_inputs
   \<and> (\<exists>r. inner_apply example_brick example_inputs example_states example_cells None = Inr r)"
proof -
  have n: "ncols narrow_inputs \<noteq> 4 * dim example_brick"
    by (simp add: narrow_inputs_def example_dim)
  have m: "mask_fits None example_inputs"
    by (simp add: mask_fits_def)
  show ?thesis
    using width_mismatch_fails [OF example_holds, of narrow_inputs example_states example_cells None]
      width_mismatch_fails [OF example_holds, of example_inputs example_states example_cells None]
      example_holds example_fits n m
    by simp
qed

text \<open>
  Claim C10. Allocation creates the initial hidden state and the initial cell state as
  vectors of \<open>dim\<close> zeros; the first four parameters, the only ones that initialization
  overwrites, are the state matrix and the three peephole vectors, so that initialization
  leaves both initial vectors as they are; hence the initial states of a brick that has
  just been allocated and initialized are matrices of zeros, for every batch size and
  every initialization scheme.
\<close>

theorem fresh_brick_starts_at_zero:
  "shared (allocate nan self) initial_state' = Some (Vec (replicate (dim self) 0))
   \<and> shared (allocate nan self) initial_cells = Some (Vec (replicate (dim self) 0))
   \<and> take 4 (parameters (allocate nan self))
       = [W_state, W_cell_to_in, W_cell_to_forget, W_cell_to_out]
   \<and> shared (initialize (allocate nan self)) initial_state'
       = shared (allocate nan self) initial_state'
   \<and> shared (initialize (allocate nan self)) initial_cells
       = shared (allocate nan self) initial_cells
   \<and> initial_states (initialize (allocate nan self)) n
       = Inr (\<lparr>ncols = dim self, mrows = replicate n (replicate (dim self) 0)\<rparr>,
              \<lparr>ncols = dim self, mrows = replicate n (replicate (dim self) 0)\<rparr>)"
proof -
  have p: "take 4 (parameters (allocate nan self))
      = [W_state, W_cell_to_in, W_cell_to_forget, W_cell_to_out]"
    by (simp add: allocate_parameters)
  have s: "shared (initialize (allocate nan self)) initial_state'
      = shared (allocate nan self) initial_state'"
    by (rule initialize_frame) (simp add: p)
  have c: "shared (initialize (allocate nan self)) initial_cells
      = shared (allocate nan self) initial_cells"
    by (rule initialize_frame) (simp add: p)
  have "initial_states (initialize (allocate nan self)) n
       = Inr (\<lparr>ncols = dim self, mrows = replicate n (replicate (dim self) 0)\<rparr>,
              \<lparr>ncols = dim self, mrows = replicate n (replicate (dim self) 0)\<rparr>)"
    by (simp add: initial_states_def get_vec_def s c allocate_initial repeat0_def as_row_def)
  then show ?thesis
    using p s c allocate_initial [of nan self] by simp
qed

end
